theory Spec2Isabelle
  imports Main
begin

section \<open>Bridging native types to foreign types (lib/SIL/Bridging.cpp)\<close>

subsection \<open>Canonical types\<close>

datatype OptionalTypeKind = OTK_Optional | OTK_ImplicitlyUnwrappedOptional

datatype SILFunctionTypeRepresentation =
  Thick | Block | Thin | CFunctionPointer | Method | ObjCMethod | WitnessMethod

datatype MetatypeRepresentation = Meta_Thin | Meta_Thick | Meta_ObjC

text \<open>
  The extended information of a function type: its representation and the remaining
  attribute bits, which \<open>withSILRepresentation\<close> leaves alone.
\<close>

record ExtInfo =
  getSILRepresentation :: SILFunctionTypeRepresentation
  otherBits :: nat

definition withSILRepresentation :: "ExtInfo \<Rightarrow> SILFunctionTypeRepresentation \<Rightarrow> ExtInfo" where
  "withSILRepresentation info rep = info\<lparr>getSILRepresentation := rep\<rparr>"

text \<open>
  Nominal type declarations. The two optional flavours are the generic enums
  \<open>Optional\<close> and \<open>ImplicitlyUnwrappedOptional\<close> of the standard library.
\<close>

datatype NominalTypeDecl =
    OptionalDecl OptionalTypeKind
  | StructDecl string
  | EnumDecl string
  | ClassDecl string

datatype ProtocolDecl = ProtocolDecl (protocolName: string) (isObjC: bool)

text \<open>A tuple element: label, variadic flag and type. \<open>getWithType\<close> replaces the type only.\<close>

datatype 'a TupleTypeElt = TupleTypeElt (getName: string) (isVararg: bool) (getType: 'a)

definition getWithType :: "'a TupleTypeElt \<Rightarrow> 'a \<Rightarrow> 'a TupleTypeElt" where
  "getWithType elt T = TupleTypeElt (getName elt) (isVararg elt) T"

text \<open>
  Canonical types. Two canonical types are the same type iff they are equal, so
  \<open>isEqual\<close> and the comparison of \<open>CanType\<close> values are HOL equality.
  A nominal type carries its declaration and its generic arguments (none for a
  non-generic type); \<open>Optional<T>\<close> is \<open>NominalTy (OptionalDecl OTK_Optional) [T]\<close>.
  \<open>OtherTy\<close> stands for the kinds of type the bridging code never inspects
  (archetypes, builtin types, polymorphic function types, ...).
\<close>

datatype CanType =
    NominalTy NominalTypeDecl "CanType list"
  | TupleTy "CanType TupleTypeElt list"
  | MetatypeTy CanType "MetatypeRepresentation option"
  | ExistentialMetatypeTy CanType "MetatypeRepresentation option"
  | FunctionTy CanType CanType ExtInfo
  | ProtocolCompositionTy "ProtocolDecl list"
  | OtherTy string

text \<open>A \<open>Type\<close> may be null: \<open>None\<close> is the null type ("no mapping found").\<close>

type_synonym Type = "CanType option"

definition OptionalType_get :: "OptionalTypeKind \<Rightarrow> CanType \<Rightarrow> CanType" where
  "OptionalType_get which valueType = NominalTy (OptionalDecl which) [valueType]"

text \<open>
  Modelled from the spec: \<open>getAnyOptionalObjectType\<close> (not in the sources at hand) tells
  whether a type is "an optional wrapping some value type V" and which flavour it has.
  The optional enums have one generic parameter.
\<close>

fun getAnyOptionalObjectType :: "CanType \<Rightarrow> (OptionalTypeKind \<times> CanType) option" where
  "getAnyOptionalObjectType (NominalTy (OptionalDecl optKind) [valueTy]) = Some (optKind, valueTy)"
| "getAnyOptionalObjectType _ = None"

text \<open>
  Modelled from the spec: \<open>getAnyNominal\<close> (not in the sources at hand) gives the
  "declaration identity" of a nominal type, and nothing for any other type.
\<close>

fun getAnyNominal :: "CanType \<Rightarrow> NominalTypeDecl option" where
  "getAnyNominal (NominalTy decl args) = Some decl"
| "getAnyNominal _ = None"

text \<open>
  Modelled from the spec: \<open>getClassOrBoundGenericClass\<close> (not in the sources at hand)
  holds of "a class type".
\<close>

fun getClassOrBoundGenericClass :: "CanType \<Rightarrow> bool" where
  "getClassOrBoundGenericClass (NominalTy (ClassDecl n) args) = True"
| "getClassOrBoundGenericClass _ = False"

text \<open>
  Modelled from the spec: \<open>isObjCExistentialType\<close> (not in the sources at hand) holds of
  an existential type that "is itself foreign-representable": at least one protocol,
  and every protocol of it foreign-representable.
\<close>

fun isObjCExistentialType :: "CanType \<Rightarrow> bool" where
  "isObjCExistentialType (ProtocolCompositionTy protocols) =
     (protocols \<noteq> [] \<and> list_all isObjC protocols)"
| "isObjCExistentialType _ = False"

subsection \<open>Abstraction patterns\<close>

text \<open>
  The foreign type a signature position came from. Only \<open>isBooleanType\<close> is asked of it:
  it holds of the primitive boolean type and not of the object-boolean type.
\<close>

datatype ClangType = Clang_Bool | Clang_Other string

fun isBooleanType :: "ClangType \<Rightarrow> bool" where
  "isBooleanType Clang_Bool = True"
| "isBooleanType (Clang_Other n) = False"

text \<open>
  Modelled from the spec: an abstraction pattern is opaque, or the shape of an original
  native type, or concrete with a foreign origin; "for tuples, an abstraction pattern
  can be indexed per-element". The per-element patterns are kept as a function of the
  index, so that no shape of the pattern is assumed.
\<close>

datatype AbstractionPattern =
    Opaque
  | TypePattern "nat \<Rightarrow> AbstractionPattern"
  | ClangTypePattern ClangType "nat \<Rightarrow> AbstractionPattern"

fun isClangType :: "AbstractionPattern \<Rightarrow> bool" where
  "isClangType (ClangTypePattern c elts) = True"
| "isClangType _ = False"

fun getClangType :: "AbstractionPattern \<Rightarrow> ClangType option" where
  "getClangType (ClangTypePattern c elts) = Some c"
| "getClangType _ = None"

fun getTupleElementType :: "AbstractionPattern \<Rightarrow> nat \<Rightarrow> AbstractionPattern" where
  "getTupleElementType Opaque i = Opaque"
| "getTupleElementType (TypePattern elts) i = elts i"
| "getTupleElementType (ClangTypePattern c elts) i = elts i"

subsection \<open>The type converter's view of the standard library\<close>

text \<open>
  The lookups of the known types and declarations are not part of the file; each is a
  parameter. \<open>None\<close> is a lookup that found nothing (a null type or declaration).
\<close>

record TypeConverter =
  getStringType :: Type
  getNSStringType :: Type
  getBoolType :: Type
  getObjCBoolType :: Type
  getArrayDecl :: "NominalTypeDecl option"
  getNSArrayType :: Type
  getDictionaryDecl :: "NominalTypeDecl option"
  getNSDictionaryType :: Type
  getSetDecl :: "NominalTypeDecl option"
  getNSSetType :: Type

datatype BridgedTypePurpose = ForArgument | ForNonOptionalResult | ForResult

subsection \<open>Ways of not returning\<close>

text \<open>
  \<open>FatalError\<close> is \<open>llvm::report_fatal_error\<close>. \<open>NullTypeWrapped\<close> is the call
  \<open>OptionalType::get(bridgedTy)\<close> on a null \<open>bridgedTy\<close>: the call builds a type around
  its argument and has no result for a null one; the only guarded call is the one of
  \<open>getLoweredBridgedType\<close> (\<open>ty ? OptionalType::get(optKind, ty) : ty\<close>).
\<close>

datatype Failure = FatalError string | NullTypeWrapped

datatype Diagnostic = could_not_find_bridge_type CanType

type_synonym Diags = "Diagnostic list"

subsection \<open>getLoweredCBridgedType\<close>

text \<open>
  The four occurrences of
  \<^verbatim>\<open>if (bridgedCollectionsAreOptional && clangTy) bridgedTy = OptionalType::get(bridgedTy); return bridgedTy;\<close>
\<close>

definition returnBridgedCollection :: "Type \<Rightarrow> bool \<Rightarrow> ClangType option \<Rightarrow> Failure + Type" where
  "returnBridgedCollection bridgedTy bridgedCollectionsAreOptional clangTy =
     (if bridgedCollectionsAreOptional \<and> clangTy \<noteq> None
      then (case bridgedTy of
              None \<Rightarrow> Inl NullTypeWrapped
            | Some ty \<Rightarrow> Inr (Some (OptionalType_get OTK_Optional ty)))
      else Inr bridgedTy)"

text \<open>
  Each of the three blocks on the shape of the type either returns (\<open>Some\<close>) or falls
  through to the next block (\<open>None\<close>).
\<close>

fun bridgeClassMetatype :: "CanType \<Rightarrow> CanType option" where
  "bridgeClassMetatype (MetatypeTy instanceType repr) =
     (if getClassOrBoundGenericClass instanceType
      then Some (MetatypeTy instanceType (Some Meta_ObjC)) else None)"
| "bridgeClassMetatype _ = None"

fun bridgeExistentialMetatype :: "CanType \<Rightarrow> CanType option" where
  "bridgeExistentialMetatype (ExistentialMetatypeTy instanceType repr) =
     (if isObjCExistentialType instanceType
      then Some (ExistentialMetatypeTy instanceType (Some Meta_ObjC)) else None)"
| "bridgeExistentialMetatype _ = None"

fun bridgeFunctionType :: "CanType \<Rightarrow> CanType option" where
  "bridgeFunctionType (FunctionTy input result info) =
     (case getSILRepresentation info of
        Block \<Rightarrow> Some (FunctionTy input result info)
      | CFunctionPointer \<Rightarrow> Some (FunctionTy input result info)
      | Thin \<Rightarrow> Some (FunctionTy input result info)
      | Method \<Rightarrow> Some (FunctionTy input result info)
      | ObjCMethod \<Rightarrow> Some (FunctionTy input result info)
      | WitnessMethod \<Rightarrow> Some (FunctionTy input result info)
      | Thick \<Rightarrow> Some (FunctionTy input result (withSILRepresentation info Block)))"
| "bridgeFunctionType _ = None"

definition getLoweredCBridgedType ::
  "TypeConverter \<Rightarrow> CanType \<Rightarrow> ClangType option \<Rightarrow> bool \<Rightarrow> Failure + Type" where
  "getLoweredCBridgedType tc t clangTy bridgedCollectionsAreOptional =
     (if getStringType tc = Some t
      then returnBridgedCollection (getNSStringType tc) bridgedCollectionsAreOptional clangTy
      else if getBoolType tc = Some t
      then (if (case clangTy of None \<Rightarrow> False | Some c \<Rightarrow> isBooleanType c)
            then Inr (Some t)
            else Inr (getObjCBoolType tc))
      else case bridgeClassMetatype t of Some ty \<Rightarrow> Inr (Some ty) | None \<Rightarrow>
           (case bridgeExistentialMetatype t of Some ty \<Rightarrow> Inr (Some ty) | None \<Rightarrow>
           (case bridgeFunctionType t of Some ty \<Rightarrow> Inr (Some ty) | None \<Rightarrow>
           (if getArrayDecl tc \<noteq> None \<and> getAnyNominal t = getArrayDecl tc
            then returnBridgedCollection (getNSArrayType tc) bridgedCollectionsAreOptional clangTy
            else if getDictionaryDecl tc \<noteq> None \<and> getAnyNominal t = getDictionaryDecl tc
            then returnBridgedCollection (getNSDictionaryType tc) bridgedCollectionsAreOptional clangTy
            else if getSetDecl tc \<noteq> None \<and> getAnyNominal t = getSetDecl tc
            then returnBridgedCollection (getNSSetType tc) bridgedCollectionsAreOptional clangTy
            else Inr (Some t)))))"

subsection \<open>getLoweredBridgedType\<close>

text \<open>\<^verbatim>\<open>auto clangTy = pattern.isClangType() ? pattern.getClangType() : nullptr;\<close>\<close>

definition patternClangTy :: "AbstractionPattern \<Rightarrow> ClangType option" where
  "patternClangTy pattern = (if isClangType pattern then getClangType pattern else None)"

text \<open>The body of the three foreign cases of the switch on the representation.\<close>

definition bridgeForeign ::
  "TypeConverter \<Rightarrow> AbstractionPattern \<Rightarrow> CanType \<Rightarrow> BridgedTypePurpose \<Rightarrow> Failure + Type" where
  "bridgeForeign tc pattern t purpose =
     (let clangTy = patternClangTy pattern in
      case getAnyOptionalObjectType t of
        Some (optKind, valueTy) \<Rightarrow>
          (case getLoweredCBridgedType tc valueTy clangTy False of
             Inl f \<Rightarrow> Inl f
           | Inr None \<Rightarrow> Inr None
           | Inr (Some ty) \<Rightarrow> Inr (Some (OptionalType_get optKind ty)))
      | None \<Rightarrow> getLoweredCBridgedType tc t clangTy (purpose = ForResult))"

fun getLoweredBridgedType ::
  "TypeConverter \<Rightarrow> AbstractionPattern \<Rightarrow> CanType \<Rightarrow> SILFunctionTypeRepresentation \<Rightarrow>
   BridgedTypePurpose \<Rightarrow> Failure + Type" where
  "getLoweredBridgedType tc pattern t Thick purpose = Inr (Some t)"
| "getLoweredBridgedType tc pattern t Thin purpose = Inr (Some t)"
| "getLoweredBridgedType tc pattern t Method purpose = Inr (Some t)"
| "getLoweredBridgedType tc pattern t WitnessMethod purpose = Inr (Some t)"
| "getLoweredBridgedType tc pattern t CFunctionPointer purpose = bridgeForeign tc pattern t purpose"
| "getLoweredBridgedType tc pattern t ObjCMethod purpose = bridgeForeign tc pattern t purpose"
| "getLoweredBridgedType tc pattern t Block purpose = bridgeForeign tc pattern t purpose"

subsection \<open>getBridgedInputType and getBridgedResultType\<close>

text \<open>
  The diagnostics emitted so far are threaded through; a call returns the diagnostics
  after it and either the way it did not return or the canonical type it returned.
  \<open>getCanonicalType\<close> is the identity on canonical types, and \<open>TupleType::get\<close> on the
  bridged fields is the tuple type of these fields.
\<close>

definition reportUnbridgeable :: "CanType \<Rightarrow> Diags \<Rightarrow> (Failure + 'a) \<times> Diags" where
  "reportUnbridgeable t diags =
     (Inl (FatalError ''unable to set up the ObjC bridge!''),
      diags @ [could_not_find_bridge_type t])"

text \<open>
  The loop over the elements of a tuple, from element \<open>i\<close> on, with the fields bridged
  so far and the \<open>changed\<close> flag.
\<close>

fun bridgeTupleElements ::
  "TypeConverter \<Rightarrow> SILFunctionTypeRepresentation \<Rightarrow> AbstractionPattern \<Rightarrow> nat \<Rightarrow>
   CanType TupleTypeElt list \<Rightarrow> CanType TupleTypeElt list \<Rightarrow> bool \<Rightarrow> Diags \<Rightarrow>
   (Failure + CanType TupleTypeElt list \<times> bool) \<times> Diags" where
  "bridgeTupleElements tc rep pattern i [] bridgedFields changed diags =
     (Inr (bridgedFields, changed), diags)"
| "bridgeTupleElements tc rep pattern i (elt # elts) bridgedFields changed diags =
     (case getLoweredBridgedType tc (getTupleElementType pattern i) (getType elt) rep ForArgument of
        Inl f \<Rightarrow> (Inl f, diags)
      | Inr None \<Rightarrow> reportUnbridgeable (getType elt) diags
      | Inr (Some canBridged) \<Rightarrow>
          if canBridged \<noteq> getType elt
          then bridgeTupleElements tc rep pattern (Suc i) elts
                 (bridgedFields @ [getWithType elt canBridged]) True diags
          else bridgeTupleElements tc rep pattern (Suc i) elts
                 (bridgedFields @ [elt]) changed diags)"

fun getBridgedInputType ::
  "TypeConverter \<Rightarrow> SILFunctionTypeRepresentation \<Rightarrow> AbstractionPattern \<Rightarrow> CanType \<Rightarrow>
   Diags \<Rightarrow> (Failure + CanType) \<times> Diags" where
  "getBridgedInputType tc rep pattern (TupleTy elements) diags =
     (case bridgeTupleElements tc rep pattern 0 elements [] False diags of
        (Inl f, diags') \<Rightarrow> (Inl f, diags')
      | (Inr (bridgedFields, changed), diags') \<Rightarrow>
          if \<not> changed then (Inr (TupleTy elements), diags')
          else (Inr (TupleTy bridgedFields), diags'))"
| "getBridgedInputType tc rep pattern input diags =
     (case getLoweredBridgedType tc pattern input rep ForArgument of
        Inl f \<Rightarrow> (Inl f, diags)
      | Inr None \<Rightarrow> reportUnbridgeable input diags
      | Inr (Some loweredBridgedType) \<Rightarrow> (Inr loweredBridgedType, diags))"

definition getBridgedResultType ::
  "TypeConverter \<Rightarrow> SILFunctionTypeRepresentation \<Rightarrow> AbstractionPattern \<Rightarrow> CanType \<Rightarrow>
   bool \<Rightarrow> Diags \<Rightarrow> (Failure + CanType) \<times> Diags" where
  "getBridgedResultType tc rep pattern result suppressOptional diags =
     (case getLoweredBridgedType tc pattern result rep
             (if suppressOptional then ForNonOptionalResult else ForResult) of
        Inl f \<Rightarrow> (Inl f, diags)
      | Inr None \<Rightarrow> reportUnbridgeable result diags
      | Inr (Some loweredType) \<Rightarrow> (Inr loweredType, diags))"

subsection \<open>Vocabulary of the properties\<close>

definition isNativeRepresentation :: "SILFunctionTypeRepresentation \<Rightarrow> bool" where
  "isNativeRepresentation rep = (rep = Thick \<or> rep = Thin \<or> rep = Method \<or> rep = WitnessMethod)"

definition isForeignRepresentation :: "SILFunctionTypeRepresentation \<Rightarrow> bool" where
  "isForeignRepresentation rep = (rep = CFunctionPointer \<or> rep = ObjCMethod \<or> rep = Block)"

text \<open>A nominal type other than the two optional enums.\<close>

fun isPlainNominal :: "CanType \<Rightarrow> bool" where
  "isPlainNominal (NominalTy (OptionalDecl k) args) = False"
| "isPlainNominal (NominalTy decl args) = True"
| "isPlainNominal _ = False"

definition ifFound :: "('a \<Rightarrow> bool) \<Rightarrow> 'a option \<Rightarrow> bool" where
  "ifFound P x = (case x of None \<Rightarrow> True | Some v \<Rightarrow> P v)"

text \<open>
  A foreign counterpart that no rule of \<open>getLoweredCBridgedType\<close> rewrites: a plain
  nominal type that is neither the native string type nor the native boolean type nor
  an instance of the native array, dictionary or set declaration.
\<close>

definition isForeignObjectType :: "TypeConverter \<Rightarrow> CanType \<Rightarrow> bool" where
  "isForeignObjectType tc ty =
     (isPlainNominal ty \<and> getStringType tc \<noteq> Some ty \<and> getBoolType tc \<noteq> Some ty \<and>
      getAnyNominal ty \<noteq> getArrayDecl tc \<and> getAnyNominal ty \<noteq> getDictionaryDecl tc \<and>
      getAnyNominal ty \<noteq> getSetDecl tc)"

definition isPlainDecl :: "NominalTypeDecl \<Rightarrow> bool" where
  "isPlainDecl decl = (case decl of OptionalDecl k \<Rightarrow> False | _ \<Rightarrow> True)"

text \<open>
  What the lookups of a standard library give: the native string and boolean types and
  the native collection declarations are not the optional enums, and the foreign
  counterparts are foreign object types. The lookups themselves are parameters of the
  model, so the properties that compare one known type with another state this.
\<close>

definition nativeTypesArePlain :: "TypeConverter \<Rightarrow> bool" where
  "nativeTypesArePlain tc =
     (ifFound isPlainNominal (getStringType tc) \<and> ifFound isPlainNominal (getBoolType tc) \<and>
      ifFound isPlainDecl (getArrayDecl tc) \<and> ifFound isPlainDecl (getDictionaryDecl tc) \<and>
      ifFound isPlainDecl (getSetDecl tc))"

definition foreignTypesAreObjects :: "TypeConverter \<Rightarrow> bool" where
  "foreignTypesAreObjects tc =
     (ifFound (isForeignObjectType tc) (getNSStringType tc) \<and>
      ifFound (isForeignObjectType tc) (getObjCBoolType tc) \<and>
      ifFound (isForeignObjectType tc) (getNSArrayType tc) \<and>
      ifFound (isForeignObjectType tc) (getNSDictionaryType tc) \<and>
      ifFound (isForeignObjectType tc) (getNSSetType tc))"

text \<open>
  The lookup whose answer \<open>getLoweredCBridgedType\<close> returns for a native string or
  collection type, in the order of its rules; \<open>None\<close> for any other type.
\<close>

definition nativeCollectionCounterpart :: "TypeConverter \<Rightarrow> CanType \<Rightarrow> Type option" where
  "nativeCollectionCounterpart tc t =
     (if getStringType tc = Some t then Some (getNSStringType tc)
      else if getBoolType tc = Some t then None
      else if getArrayDecl tc \<noteq> None \<and> getAnyNominal t = getArrayDecl tc
      then Some (getNSArrayType tc)
      else if getDictionaryDecl tc \<noteq> None \<and> getAnyNominal t = getDictionaryDecl tc
      then Some (getNSDictionaryType tc)
      else if getSetDecl tc \<noteq> None \<and> getAnyNominal t = getSetDecl tc
      then Some (getNSSetType tc)
      else None)"

subsection \<open>A standard library with and without the foreign object types\<close>

definition Swift_String :: CanType where "Swift_String = NominalTy (StructDecl ''String'') []"
definition Swift_Bool :: CanType where "Swift_Bool = NominalTy (StructDecl ''Bool'') []"
definition Swift_Int :: CanType where "Swift_Int = NominalTy (StructDecl ''Int'') []"
definition Swift_Array :: "CanType \<Rightarrow> CanType" where
  "Swift_Array T = NominalTy (StructDecl ''Array'') [T]"
definition NSString :: CanType where "NSString = NominalTy (ClassDecl ''NSString'') []"
definition ObjCBool :: CanType where "ObjCBool = NominalTy (StructDecl ''ObjCBool'') []"
definition NSArray :: CanType where "NSArray = NominalTy (ClassDecl ''NSArray'') []"
definition NSDictionary :: CanType where "NSDictionary = NominalTy (ClassDecl ''NSDictionary'') []"
definition NSSet :: CanType where "NSSet = NominalTy (ClassDecl ''NSSet'') []"

definition stdlib :: TypeConverter where
  "stdlib = \<lparr> getStringType = Some Swift_String, getNSStringType = Some NSString,
              getBoolType = Some Swift_Bool, getObjCBoolType = Some ObjCBool,
              getArrayDecl = Some (StructDecl ''Array''), getNSArrayType = Some NSArray,
              getDictionaryDecl = Some (StructDecl ''Dictionary''),
              getNSDictionaryType = Some NSDictionary,
              getSetDecl = Some (StructDecl ''Set''), getNSSetType = Some NSSet \<rparr>"

definition stdlibWithoutFoundation :: TypeConverter where
  "stdlibWithoutFoundation =
     stdlib \<lparr> getNSStringType := None, getNSArrayType := None,
              getNSDictionaryType := None, getNSSetType := None \<rparr>"

definition noElements :: "nat \<Rightarrow> AbstractionPattern" where
  "noElements i = Opaque"

definition exampleTuple :: "CanType TupleTypeElt list" where
  "exampleTuple = [TupleTypeElt ''name'' False Swift_String, TupleTypeElt ''count'' False Swift_Int]"

definition thickClosure :: CanType where
  "thickClosure = FunctionTy Swift_Int Swift_String \<lparr>getSILRepresentation = Thick, otherBits = 5\<rparr>"

definition stringAndBool :: "CanType TupleTypeElt list" where
  "stringAndBool = [TupleTypeElt [] False Swift_String, TupleTypeElt [] False Swift_Bool]"

lemmas example_defs = Swift_String_def Swift_Bool_def Swift_Int_def Swift_Array_def NSString_def
  ObjCBool_def NSArray_def NSDictionary_def NSSet_def stdlib_def noElements_def

lemmas bridge_defs = getLoweredCBridgedType_def bridgeForeign_def returnBridgedCollection_def
  OptionalType_get_def getWithType_def reportUnbridgeable_def patternClangTy_def

section \<open>Properties\<close>

subsection \<open>Native representations\<close>

lemma getLoweredBridgedType_native:
  "isNativeRepresentation rep \<Longrightarrow> getLoweredBridgedType tc pattern t rep purpose = Inr (Some t)"
  by (cases rep) (simp_all add: isNativeRepresentation_def)

lemma bridgeTupleElements_native:
  "isNativeRepresentation rep \<Longrightarrow>
   bridgeTupleElements tc rep pattern i elts bridgedFields changed diags =
     (Inr (bridgedFields @ elts, changed), diags)"
  by (induction elts arbitrary: i bridgedFields) (simp_all add: getLoweredBridgedType_native)

text \<open>
  C4. Under a native representation (thick, thin, method, witness method) and for every
  type and abstraction pattern, \<open>getBridgedInputType\<close> and \<open>getBridgedResultType\<close>
  return the type they were given, whatever its shape, emit no diagnostic and do not fail.
\<close>

theorem native_pass_through:
  assumes "isNativeRepresentation rep"
  shows "getBridgedInputType tc rep pattern T diags = (Inr T, diags) \<and>
         getBridgedResultType tc rep pattern T suppressOptional diags = (Inr T, diags)"
proof
  show "getBridgedInputType tc rep pattern T diags = (Inr T, diags)"
    using assms
    by (cases T) (simp_all add: bridgeTupleElements_native getLoweredBridgedType_native)
  show "getBridgedResultType tc rep pattern T suppressOptional diags = (Inr T, diags)"
    using assms by (simp add: getBridgedResultType_def getLoweredBridgedType_native)
qed

theorem native_pass_through_witness:
  "isNativeRepresentation Thick \<and>
   getBridgedInputType stdlib Thick Opaque (Swift_Array Swift_Int) [] = (Inr (Swift_Array Swift_Int), []) \<and>
   getBridgedResultType stdlib Thick Opaque (Swift_Array Swift_Int) False [] = (Inr (Swift_Array Swift_Int), [])"
  using native_pass_through [of Thick stdlib Opaque "Swift_Array Swift_Int" "[]" False]
  by (simp add: isNativeRepresentation_def)

subsection \<open>Tuples of arguments\<close>

lemma bridgeTupleElements_returns:
  "bridgeTupleElements tc rep pattern i elts bridgedFields changed diags = (Inr (flds, ch), diags') \<Longrightarrow>
   diags' = diags \<and>
   (\<exists>new. flds = bridgedFields @ new \<and> length new = length elts \<and>
      (\<forall>j < length elts.
         getLoweredBridgedType tc (getTupleElementType pattern (i + j)) (getType (elts ! j)) rep ForArgument
           = Inr (Some (getType (new ! j))) \<and>
         new ! j = getWithType (elts ! j) (getType (new ! j))) \<and>
      (ch \<longleftrightarrow> changed \<or> (\<exists>j < length elts. getType (new ! j) \<noteq> getType (elts ! j))))"
proof (induction elts arbitrary: i bridgedFields changed)
  case Nil
  then show ?case by simp
next
  case (Cons elt elts)
  from Cons.prems obtain b where
    b: "getLoweredBridgedType tc (getTupleElementType pattern i) (getType elt) rep ForArgument = Inr (Some b)"
    by (auto simp: reportUnbridgeable_def split: sum.splits option.splits)
  let ?e = "if b \<noteq> getType elt then getWithType elt b else elt"
  let ?c = "if b \<noteq> getType elt then True else changed"
  have rec: "bridgeTupleElements tc rep pattern (Suc i) elts (bridgedFields @ [?e]) ?c diags
               = (Inr (flds, ch), diags')"
    using Cons.prems b by (simp split: if_splits)
  from Cons.IH[OF rec] obtain new where
    d: "diags' = diags" and f: "flds = (bridgedFields @ [?e]) @ new" and
    l: "length new = length elts" and
    a: "\<forall>j < length elts.
         getLoweredBridgedType tc (getTupleElementType pattern (Suc i + j)) (getType (elts ! j)) rep ForArgument
           = Inr (Some (getType (new ! j))) \<and>
         new ! j = getWithType (elts ! j) (getType (new ! j))" and
    c: "ch \<longleftrightarrow> ?c \<or> (\<exists>j < length elts. getType (new ! j) \<noteq> getType (elts ! j))"
    by blast
  have e: "getType ?e = b" "?e = getWithType elt b"
    by (cases elt; simp add: getWithType_def)+
  show ?case
  proof (intro conjI exI[of _ "?e # new"])
    show "diags' = diags" by (rule d)
    show "flds = bridgedFields @ ?e # new" using f by simp
    show "length (?e # new) = length (elt # elts)" using l by simp
    show "\<forall>j<length (elt # elts).
       getLoweredBridgedType tc (getTupleElementType pattern (i + j)) (getType ((elt # elts) ! j)) rep ForArgument =
       Inr (Some (getType ((?e # new) ! j))) \<and>
       (?e # new) ! j = getWithType ((elt # elts) ! j) (getType ((?e # new) ! j))"
    proof (intro allI impI)
      fix j assume "j < length (elt # elts)"
      show "getLoweredBridgedType tc (getTupleElementType pattern (i + j)) (getType ((elt # elts) ! j)) rep ForArgument =
       Inr (Some (getType ((?e # new) ! j))) \<and>
       (?e # new) ! j = getWithType ((elt # elts) ! j) (getType ((?e # new) ! j))"
      proof (cases j)
        case 0
        then show ?thesis using b e by simp
      next
        case (Suc k)
        then have "k < length elts" using \<open>j < length (elt # elts)\<close> by simp
        then show ?thesis using a Suc by simp
      qed
    qed
    show "ch = (changed \<or> (\<exists>j<length (elt # elts). getType ((?e # new) ! j) \<noteq> getType ((elt # elts) ! j)))"
    proof -
      have "(\<exists>j<length (elt # elts). getType ((?e # new) ! j) \<noteq> getType ((elt # elts) ! j))
            \<longleftrightarrow> (b \<noteq> getType elt \<or> (\<exists>j < length elts. getType (new ! j) \<noteq> getType (elts ! j)))"
        (is "?L \<longleftrightarrow> ?R")
      proof
        assume ?L
        then obtain j where j: "j < length (elt # elts)" "getType ((?e # new) ! j) \<noteq> getType ((elt # elts) ! j)"
          by blast
        show ?R
        proof (cases j)
          case 0 then show ?thesis using j e by simp
        next
          case (Suc k) then show ?thesis using j by auto
        qed
      next
        assume ?R
        then show ?L
        proof
          assume "b \<noteq> getType elt"
          then have "getType ((?e # new) ! 0) \<noteq> getType ((elt # elts) ! 0)" using e by simp
          then show ?L by blast
        next
          assume "\<exists>j < length elts. getType (new ! j) \<noteq> getType (elts ! j)"
          then obtain k where "k < length elts" "getType (new ! k) \<noteq> getType (elts ! k)" by blast
          then have "Suc k < length (elt # elts)" "getType ((?e # new) ! Suc k) \<noteq> getType ((elt # elts) ! Suc k)"
            by simp_all
          then show ?L by blast
        qed
      qed
      then show ?thesis using c by auto
    qed
  qed
qed


lemma bridgeTupleElements_total:
  "\<forall>j < length elts. \<exists>b.
      getLoweredBridgedType tc (getTupleElementType pattern (i + j)) (getType (elts ! j)) rep ForArgument
        = Inr (Some b) \<Longrightarrow>
   \<exists>flds ch. bridgeTupleElements tc rep pattern i elts bridgedFields changed diags = (Inr (flds, ch), diags)"
proof (induction elts arbitrary: i bridgedFields changed)
  case Nil
  then show ?case by simp
next
  case (Cons elt elts)
  from Cons.prems have "\<exists>b. getLoweredBridgedType tc (getTupleElementType pattern (i + 0))
      (getType ((elt # elts) ! 0)) rep ForArgument = Inr (Some b)"
    by blast
  then obtain b where
    b: "getLoweredBridgedType tc (getTupleElementType pattern i) (getType elt) rep ForArgument = Inr (Some b)"
    by auto
  have rest: "\<forall>j < length elts. \<exists>b.
      getLoweredBridgedType tc (getTupleElementType pattern (Suc i + j)) (getType (elts ! j)) rep ForArgument
        = Inr (Some b)"
  proof (intro allI impI)
    fix j assume "j < length elts"
    then have "Suc j < length (elt # elts)" by simp
    with Cons.prems have "\<exists>b. getLoweredBridgedType tc (getTupleElementType pattern (i + Suc j))
      (getType ((elt # elts) ! Suc j)) rep ForArgument = Inr (Some b)"
      by blast
    then show "\<exists>b. getLoweredBridgedType tc (getTupleElementType pattern (Suc i + j)) (getType (elts ! j)) rep ForArgument
        = Inr (Some b)" by simp
  qed
  show ?case using b Cons.IH[OF rest] by simp
qed

text \<open>
  C2. Tuple minimality of \<open>getBridgedInputType\<close>, under any representation: when every
  element of a tuple has a bridged type, the call returns a tuple of the same length, in
  which every element keeps its label (and variadic flag) and its position and has the
  bridged type of the element it comes from; an element whose type did not change is the
  element of the input; and when no element's type changes, the tuple returned is the
  input tuple.
\<close>

theorem tuple_minimality:
  assumes "\<forall>j < length elements. \<exists>b.
      getLoweredBridgedType tc (getTupleElementType pattern j) (getType (elements ! j)) rep ForArgument
        = Inr (Some b)"
  shows "\<exists>elements'.
      getBridgedInputType tc rep pattern (TupleTy elements) diags = (Inr (TupleTy elements'), diags) \<and>
      length elements' = length elements \<and>
      (\<forall>j < length elements.
         getName (elements' ! j) = getName (elements ! j) \<and>
         isVararg (elements' ! j) = isVararg (elements ! j) \<and>
         getLoweredBridgedType tc (getTupleElementType pattern j) (getType (elements ! j)) rep ForArgument
           = Inr (Some (getType (elements' ! j))) \<and>
         (getType (elements' ! j) = getType (elements ! j) \<longrightarrow> elements' ! j = elements ! j)) \<and>
      ((\<forall>j < length elements.
          getLoweredBridgedType tc (getTupleElementType pattern j) (getType (elements ! j)) rep ForArgument
            = Inr (Some (getType (elements ! j)))) \<longrightarrow> elements' = elements)"
proof -
  from assms have "\<forall>j < length elements. \<exists>b.
      getLoweredBridgedType tc (getTupleElementType pattern (0 + j)) (getType (elements ! j)) rep ForArgument
        = Inr (Some b)" by simp
  from bridgeTupleElements_total[OF this] obtain flds ch where
    run: "bridgeTupleElements tc rep pattern 0 elements [] False diags = (Inr (flds, ch), diags)"
    by blast
  from bridgeTupleElements_returns[OF run] obtain new where
    f: "flds = new" and l: "length new = length elements" and
    a: "\<forall>j < length elements.
         getLoweredBridgedType tc (getTupleElementType pattern j) (getType (elements ! j)) rep ForArgument
           = Inr (Some (getType (new ! j))) \<and>
         new ! j = getWithType (elements ! j) (getType (new ! j))" and
    c: "ch \<longleftrightarrow> (\<exists>j < length elements. getType (new ! j) \<noteq> getType (elements ! j))"
    by auto
  have same: "new ! j = elements ! j" if "j < length elements" "getType (new ! j) = getType (elements ! j)" for j
  proof -
    have "new ! j = getWithType (elements ! j) (getType (elements ! j))" using a that by metis
    then show ?thesis by (cases "elements ! j") (simp add: getWithType_def)
  qed
  have unchanged: "new = elements" if "\<not> ch"
  proof (rule nth_equalityI)
    show "length new = length elements" by (rule l)
    fix j assume "j < length new"
    then show "new ! j = elements ! j" using same c that l by auto
  qed
  have res: "getBridgedInputType tc rep pattern (TupleTy elements) diags = (Inr (TupleTy new), diags)"
    using run f unchanged by (cases ch) simp_all
  show ?thesis
  proof (intro exI[of _ new] conjI allI impI)
    show "getBridgedInputType tc rep pattern (TupleTy elements) diags = (Inr (TupleTy new), diags)"
      by (rule res)
    show "length new = length elements" by (rule l)
  next
    fix j assume j: "j < length elements"
    then have w: "new ! j = getWithType (elements ! j) (getType (new ! j))" using a by blast
    show "getName (new ! j) = getName (elements ! j)"
      by (subst w) (simp add: getWithType_def)
    show "isVararg (new ! j) = isVararg (elements ! j)"
      by (subst w) (simp add: getWithType_def)
    show "getLoweredBridgedType tc (getTupleElementType pattern j) (getType (elements ! j)) rep ForArgument
           = Inr (Some (getType (new ! j)))" using a j by blast
  next
    fix j assume "j < length elements" "getType (new ! j) = getType (elements ! j)"
    then show "new ! j = elements ! j" by (rule same)
  next
    assume z: "\<forall>j < length elements.
          getLoweredBridgedType tc (getTupleElementType pattern j) (getType (elements ! j)) rep ForArgument
            = Inr (Some (getType (elements ! j)))"
    have "\<not> ch"
    proof
      assume ch
      then obtain j where j: "j < length elements" "getType (new ! j) \<noteq> getType (elements ! j)"
        using c by blast
      with a z show False by (metis Inr_inject option.inject)
    qed
    then show "new = elements" by (rule unchanged)
  qed
qed

theorem tuple_minimality_witness:
  "\<exists>elements'.
      getBridgedInputType stdlib ObjCMethod Opaque (TupleTy exampleTuple) [] = (Inr (TupleTy elements'), []) \<and>
      length elements' = 2 \<and>
      getName (elements' ! 0) = ''name'' \<and> getName (elements' ! 1) = ''count'' \<and>
      getType (elements' ! 0) = NSString \<and> elements' ! 1 = exampleTuple ! 1"
proof -
  have h: "\<forall>j < length exampleTuple. \<exists>b.
      getLoweredBridgedType stdlib (getTupleElementType Opaque j) (getType (exampleTuple ! j)) ObjCMethod ForArgument
        = Inr (Some b)"
    by (simp add: exampleTuple_def All_less_Suc example_defs bridge_defs)
  have b0: "getLoweredBridgedType stdlib (getTupleElementType Opaque 0) (getType (exampleTuple ! 0)) ObjCMethod ForArgument
        = Inr (Some NSString)"
    by (simp add: exampleTuple_def example_defs bridge_defs)
  have b1: "getLoweredBridgedType stdlib (getTupleElementType Opaque 1) (getType (exampleTuple ! 1)) ObjCMethod ForArgument
        = Inr (Some (getType (exampleTuple ! 1)))"
    by (simp add: exampleTuple_def example_defs bridge_defs)
  from tuple_minimality [OF h, of "[]"] obtain elements' where
    r: "getBridgedInputType stdlib ObjCMethod Opaque (TupleTy exampleTuple) [] = (Inr (TupleTy elements'), [])"
    and l: "length elements' = length exampleTuple"
    and a: "\<forall>j < length exampleTuple.
         getName (elements' ! j) = getName (exampleTuple ! j) \<and>
         isVararg (elements' ! j) = isVararg (exampleTuple ! j) \<and>
         getLoweredBridgedType stdlib (getTupleElementType Opaque j) (getType (exampleTuple ! j)) ObjCMethod ForArgument
           = Inr (Some (getType (elements' ! j))) \<and>
         (getType (elements' ! j) = getType (exampleTuple ! j) \<longrightarrow> elements' ! j = exampleTuple ! j)"
    by blast
  have l2: "length exampleTuple = 2" by (simp add: exampleTuple_def)
  have a0: "getName (elements' ! 0) = getName (exampleTuple ! 0)"
           "getLoweredBridgedType stdlib (getTupleElementType Opaque 0) (getType (exampleTuple ! 0)) ObjCMethod ForArgument
           = Inr (Some (getType (elements' ! 0)))"
    using a l2 by simp_all
  have a1: "getName (elements' ! 1) = getName (exampleTuple ! 1)"
           "getLoweredBridgedType stdlib (getTupleElementType Opaque 1) (getType (exampleTuple ! 1)) ObjCMethod ForArgument
           = Inr (Some (getType (elements' ! 1)))"
           "getType (elements' ! 1) = getType (exampleTuple ! 1) \<longrightarrow> elements' ! 1 = exampleTuple ! 1"
    using a l2 by simp_all
  have t0: "getType (elements' ! 0) = NSString" using a0(2) b0 by simp
  have t1: "elements' ! 1 = exampleTuple ! 1" using a1(2,3) b1 by simp
  show ?thesis
    using r l l2 a0(1) a1(1) t0 t1 by (intro exI[of _ elements']) (simp add: exampleTuple_def)
qed


subsection \<open>Foreign representations\<close>

lemma getLoweredBridgedType_foreign:
  "isForeignRepresentation rep \<Longrightarrow>
   getLoweredBridgedType tc pattern t rep purpose = bridgeForeign tc pattern t purpose"
  by (cases rep) (simp_all add: isForeignRepresentation_def)

lemma getAnyOptionalObjectType_OptionalType_get:
  "getAnyOptionalObjectType (OptionalType_get k v) = Some (k, v)"
  by (simp add: OptionalType_get_def)

lemma getAnyOptionalObjectType_Some:
  "getAnyOptionalObjectType t = Some (k, v) \<Longrightarrow> t = OptionalType_get k v"
  by (induction t rule: getAnyOptionalObjectType.induct) (simp_all add: OptionalType_get_def)

lemma OptionalType_get_not_value: "OptionalType_get k v \<noteq> v"
proof
  assume "OptionalType_get k v = v"
  then have "size (OptionalType_get k v) = size v" by simp
  then show False by (simp add: OptionalType_get_def)
qed

lemma returnBridgedCollection_not_optional:
  "returnBridgedCollection bridgedTy False clangTy = Inr bridgedTy"
  by (simp add: returnBridgedCollection_def)

lemma getLoweredCBridgedType_not_optional_returns:
  "\<exists>ty. getLoweredCBridgedType tc t clangTy False = Inr ty"
  by (simp add: getLoweredCBridgedType_def returnBridgedCollection_not_optional
           split: option.splits)

subsection \<open>The hint for optional collections\<close>

text \<open>
  The claim C1 fails at the native string type as an argument of a foreign method whose
  pattern has a foreign origin: the call returns the foreign string type itself, not an
  optional of it, and with the hint \<open>purpose \<noteq> ForNonOptionalResult\<close> the leaf mapper
  would have answered otherwise.
\<close>

theorem argument_string_counterexample:
  "getLoweredBridgedType stdlib (ClangTypePattern (Clang_Other ''NSString *'') noElements)
      Swift_String ObjCMethod ForArgument = Inr (Some NSString) \<and>
   getLoweredBridgedType stdlib (ClangTypePattern (Clang_Other ''NSString *'') noElements)
      Swift_String ObjCMethod ForArgument \<noteq> Inr (Some (OptionalType_get OTK_Optional NSString)) \<and>
   getLoweredCBridgedType stdlib Swift_String (Some (Clang_Other ''NSString *''))
      (ForArgument \<noteq> ForNonOptionalResult) = Inr (Some (OptionalType_get OTK_Optional NSString))"
  by (simp add: example_defs bridge_defs)

text \<open>
  C1, amended. Under a foreign representation, for a type that is not an optional,
  \<open>getLoweredBridgedType\<close> delegates to \<open>getLoweredCBridgedType\<close> with the hint
  \<open>purpose = ForResult\<close>. In particular the native string type is bridged to the
  foreign string type as it is found for the purposes argument and non-optional result,
  whatever the pattern; and when the foreign string type is found, the answer is an
  optional of it exactly when the purpose is result and the pattern has a foreign
  origin, and the foreign string type itself in every other case.
\<close>

theorem collections_optional_for_result_only:
  assumes "isForeignRepresentation rep" and "getAnyOptionalObjectType t = None"
  shows "getLoweredBridgedType tc pattern t rep purpose =
           getLoweredCBridgedType tc t (patternClangTy pattern) (purpose = ForResult) \<and>
         (getStringType tc = Some t \<longrightarrow>
            getLoweredBridgedType tc pattern t rep ForArgument = Inr (getNSStringType tc) \<and>
            getLoweredBridgedType tc pattern t rep ForNonOptionalResult = Inr (getNSStringType tc) \<and>
            (patternClangTy pattern = None \<longrightarrow>
               getLoweredBridgedType tc pattern t rep ForResult = Inr (getNSStringType tc)) \<and>
            (\<forall>ns. getNSStringType tc = Some ns \<longrightarrow>
               getLoweredBridgedType tc pattern t rep purpose
                 = Inr (Some (if purpose = ForResult \<and> patternClangTy pattern \<noteq> None
                              then OptionalType_get OTK_Optional ns else ns)) \<and>
               (getLoweredBridgedType tc pattern t rep purpose
                  = Inr (Some (OptionalType_get OTK_Optional ns))
                \<longleftrightarrow> purpose = ForResult \<and> patternClangTy pattern \<noteq> None)))"
proof -
  have core: "getLoweredBridgedType tc pattern t rep p =
                getLoweredCBridgedType tc t (patternClangTy pattern) (p = ForResult)" for p
    using assms by (simp add: getLoweredBridgedType_foreign bridgeForeign_def)
  have str: "getLoweredCBridgedType tc t c h = returnBridgedCollection (getNSStringType tc) h c"
    if "getStringType tc = Some t" for c h
    using that by (simp add: getLoweredCBridgedType_def)
  have ne: "OptionalType_get OTK_Optional ns \<noteq> ns" for ns
    by (rule OptionalType_get_not_value)
  have found: "getLoweredBridgedType tc pattern t rep purpose
                 = Inr (Some (if purpose = ForResult \<and> patternClangTy pattern \<noteq> None
                              then OptionalType_get OTK_Optional ns else ns))"
    if "getStringType tc = Some t" "getNSStringType tc = Some ns" for ns
    using that by (auto simp: core str returnBridgedCollection_def)
  have iff: "getLoweredBridgedType tc pattern t rep purpose
                  = Inr (Some (OptionalType_get OTK_Optional ns))
                \<longleftrightarrow> purpose = ForResult \<and> patternClangTy pattern \<noteq> None"
    if "getStringType tc = Some t" "getNSStringType tc = Some ns" for ns
    unfolding found[OF that] using ne[of ns] by (auto split: if_splits)
  have plain: "getLoweredBridgedType tc pattern t rep ForArgument = Inr (getNSStringType tc)"
      "getLoweredBridgedType tc pattern t rep ForNonOptionalResult = Inr (getNSStringType tc)"
      "patternClangTy pattern = None \<longrightarrow>
         getLoweredBridgedType tc pattern t rep ForResult = Inr (getNSStringType tc)"
    if "getStringType tc = Some t"
    using that by (simp_all add: core str returnBridgedCollection_def)
  show ?thesis
    using core plain found iff by blast
qed

theorem collections_optional_for_result_only_witness:
  "isForeignRepresentation ObjCMethod \<and> getAnyOptionalObjectType Swift_String = None \<and>
   getLoweredBridgedType stdlib (ClangTypePattern (Clang_Other ''NSString *'') noElements)
      Swift_String ObjCMethod ForArgument = Inr (Some NSString) \<and>
   getLoweredBridgedType stdlib (ClangTypePattern (Clang_Other ''NSString *'') noElements)
      Swift_String ObjCMethod ForResult = Inr (Some (OptionalType_get OTK_Optional NSString)) \<and>
   getLoweredBridgedType stdlib Opaque Swift_String ObjCMethod ForResult = Inr (Some NSString)"
proof -
  let ?p = "ClangTypePattern (Clang_Other ''NSString *'') noElements"
  have f: "isForeignRepresentation ObjCMethod" by (simp add: isForeignRepresentation_def)
  have o: "getAnyOptionalObjectType Swift_String = None" by (simp add: example_defs)
  have s: "getStringType stdlib = Some Swift_String" "getNSStringType stdlib = Some NSString"
    by (simp_all add: example_defs)
  have p: "patternClangTy ?p \<noteq> None" "patternClangTy Opaque = None"
    by (simp_all add: patternClangTy_def)
  have g: "getLoweredBridgedType stdlib pat Swift_String ObjCMethod pu
             = Inr (Some (if pu = ForResult \<and> patternClangTy pat \<noteq> None
                          then OptionalType_get OTK_Optional NSString else NSString))" for pat pu
    using collections_optional_for_result_only [OF f o, of stdlib pat pu] s by blast
  have a: "getLoweredBridgedType stdlib ?p Swift_String ObjCMethod ForArgument = Inr (Some NSString)"
    using g[of ?p ForArgument] by simp
  have r: "getLoweredBridgedType stdlib ?p Swift_String ObjCMethod ForResult
             = Inr (Some (OptionalType_get OTK_Optional NSString))"
    using g[of ?p ForResult] p by simp
  have n: "getLoweredBridgedType stdlib Opaque Swift_String ObjCMethod ForResult = Inr (Some NSString)"
    using g[of Opaque ForResult] p by simp
  show ?thesis using f o a r n by simp
qed

subsection \<open>Optionals\<close>

lemma native_or_foreign:
  "isNativeRepresentation rep \<or> isForeignRepresentation rep"
  by (cases rep) (simp_all add: isNativeRepresentation_def isForeignRepresentation_def)

text \<open>
  The claim C3 fails at \<open>V = Optional<String>\<close>: bridging \<open>V\<close> as an argument gives
  \<open>Optional<NSString>\<close>, but bridging \<open>Optional<V>\<close> gives \<open>Optional<V>\<close> back and not
  \<open>Optional<Optional<NSString>>\<close>, since the wrapped type is not resolved recursively.
\<close>

theorem optional_transparency_counterexample:
  "getLoweredBridgedType stdlib Opaque (OptionalType_get OTK_Optional Swift_String)
     ObjCMethod ForArgument = Inr (Some (OptionalType_get OTK_Optional NSString)) \<and>
   getLoweredBridgedType stdlib Opaque
     (OptionalType_get OTK_Optional (OptionalType_get OTK_Optional Swift_String))
     ObjCMethod ForArgument
     = Inr (Some (OptionalType_get OTK_Optional (OptionalType_get OTK_Optional Swift_String))) \<and>
   getLoweredBridgedType stdlib Opaque
     (OptionalType_get OTK_Optional (OptionalType_get OTK_Optional Swift_String))
     ObjCMethod ForArgument
     \<noteq> Inr (Some (OptionalType_get OTK_Optional (OptionalType_get OTK_Optional NSString)))"
  by (simp add: example_defs bridge_defs)

text \<open>
  C3, amended. Optional transparency, one layer deep: for every value type \<open>V\<close>,
  optional flavour and representation, bridging \<open>Optional<V>\<close> gives the same optional
  under a native representation, and under a foreign one resolves \<open>V\<close> with the leaf
  mapper and the hint \<open>False\<close> (which always returns): an absent answer makes the whole
  lookup absent, and an answer \<open>b\<close> is wrapped once, in the flavour of the input, never
  twice. For a \<open>V\<close> that is not itself an optional, and every representation, this is
  \<open>Optional<bridge(V)>\<close>, where \<open>bridge(V)\<close> is \<open>V\<close> bridged as an argument (which
  always returns).
\<close>

theorem optional_transparency:
  "(isNativeRepresentation rep \<longrightarrow>
      getLoweredBridgedType tc pattern (OptionalType_get optKind V) rep purpose
        = Inr (Some (OptionalType_get optKind V))) \<and>
   (isForeignRepresentation rep \<longrightarrow>
      (\<exists>bridged. getLoweredCBridgedType tc V (patternClangTy pattern) False = Inr bridged \<and>
         getLoweredBridgedType tc pattern (OptionalType_get optKind V) rep purpose
           = Inr (map_option (OptionalType_get optKind) bridged) \<and>
         (\<forall>b k1 k2. bridged = Some b \<longrightarrow>
            getLoweredBridgedType tc pattern (OptionalType_get optKind V) rep purpose
              \<noteq> Inr (Some (OptionalType_get k1 (OptionalType_get k2 b)))))) \<and>
   (getAnyOptionalObjectType V = None \<longrightarrow>
      (\<exists>bridged. getLoweredBridgedType tc pattern V rep ForArgument = Inr bridged \<and>
         getLoweredBridgedType tc pattern (OptionalType_get optKind V) rep purpose
           = Inr (map_option (OptionalType_get optKind) bridged) \<and>
         (\<forall>b k1 k2. bridged = Some b \<longrightarrow>
            getLoweredBridgedType tc pattern (OptionalType_get optKind V) rep purpose
              \<noteq> Inr (Some (OptionalType_get k1 (OptionalType_get k2 b))))))"
proof -
  have twice: "Inr (map_option (OptionalType_get optKind) bridged)
                 \<noteq> (Inr (Some (OptionalType_get k1 (OptionalType_get k2 b))) :: Failure + Type)"
    if "bridged = Some b" for bridged b k1 k2
    using that OptionalType_get_not_value[of k2 b] by (auto simp: OptionalType_get_def)
  have nat: "getLoweredBridgedType tc pattern x rep p = Inr (Some x)"
    if "isNativeRepresentation rep" for x p
    using that by (rule getLoweredBridgedType_native)
  have leaf: "\<exists>bridged. getLoweredCBridgedType tc V (patternClangTy pattern) False = Inr bridged \<and>
         getLoweredBridgedType tc pattern (OptionalType_get optKind V) rep purpose
           = Inr (map_option (OptionalType_get optKind) bridged)"
    if f: "isForeignRepresentation rep"
  proof -
    obtain bridged where b: "getLoweredCBridgedType tc V (patternClangTy pattern) False = Inr bridged"
      using getLoweredCBridgedType_not_optional_returns by blast
    have "getLoweredBridgedType tc pattern (OptionalType_get optKind V) rep purpose
           = Inr (map_option (OptionalType_get optKind) bridged)"
      using f b
      by (cases bridged)
         (simp_all add: getLoweredBridgedType_foreign bridgeForeign_def
            getAnyOptionalObjectType_OptionalType_get)
    with b show ?thesis by blast
  qed
  have arg: "getLoweredBridgedType tc pattern V rep ForArgument
               = getLoweredCBridgedType tc V (patternClangTy pattern) False"
    if "isForeignRepresentation rep" "getAnyOptionalObjectType V = None"
    using that by (simp add: getLoweredBridgedType_foreign bridgeForeign_def)
  have c1: "isNativeRepresentation rep \<longrightarrow>
      getLoweredBridgedType tc pattern (OptionalType_get optKind V) rep purpose
        = Inr (Some (OptionalType_get optKind V))"
    using nat by blast
  have c2: "isForeignRepresentation rep \<longrightarrow>
      (\<exists>bridged. getLoweredCBridgedType tc V (patternClangTy pattern) False = Inr bridged \<and>
         getLoweredBridgedType tc pattern (OptionalType_get optKind V) rep purpose
           = Inr (map_option (OptionalType_get optKind) bridged) \<and>
         (\<forall>b k1 k2. bridged = Some b \<longrightarrow>
            getLoweredBridgedType tc pattern (OptionalType_get optKind V) rep purpose
              \<noteq> Inr (Some (OptionalType_get k1 (OptionalType_get k2 b)))))"
  proof
    assume "isForeignRepresentation rep"
    from leaf[OF this] obtain bridged where
      b: "getLoweredCBridgedType tc V (patternClangTy pattern) False = Inr bridged"
         "getLoweredBridgedType tc pattern (OptionalType_get optKind V) rep purpose
           = Inr (map_option (OptionalType_get optKind) bridged)"
      by blast
    show "\<exists>bridged. getLoweredCBridgedType tc V (patternClangTy pattern) False = Inr bridged \<and>
         getLoweredBridgedType tc pattern (OptionalType_get optKind V) rep purpose
           = Inr (map_option (OptionalType_get optKind) bridged) \<and>
         (\<forall>b k1 k2. bridged = Some b \<longrightarrow>
            getLoweredBridgedType tc pattern (OptionalType_get optKind V) rep purpose
              \<noteq> Inr (Some (OptionalType_get k1 (OptionalType_get k2 b))))"
      using b twice[of bridged] by (intro exI[of _ bridged]) simp
  qed
  have c3: "getAnyOptionalObjectType V = None \<longrightarrow>
      (\<exists>bridged. getLoweredBridgedType tc pattern V rep ForArgument = Inr bridged \<and>
         getLoweredBridgedType tc pattern (OptionalType_get optKind V) rep purpose
           = Inr (map_option (OptionalType_get optKind) bridged) \<and>
         (\<forall>b k1 k2. bridged = Some b \<longrightarrow>
            getLoweredBridgedType tc pattern (OptionalType_get optKind V) rep purpose
              \<noteq> Inr (Some (OptionalType_get k1 (OptionalType_get k2 b)))))"
  proof
    assume v: "getAnyOptionalObjectType V = None"
    from native_or_foreign[of rep]
    obtain bridged where
      b: "getLoweredBridgedType tc pattern V rep ForArgument = Inr bridged"
         "getLoweredBridgedType tc pattern (OptionalType_get optKind V) rep purpose
           = Inr (map_option (OptionalType_get optKind) bridged)"
    proof
      assume n: "isNativeRepresentation rep"
      show ?thesis
        by (rule that[of "Some V"]) (simp_all add: nat[OF n])
    next
      assume f: "isForeignRepresentation rep"
      from leaf[OF f] obtain bridged where
        "getLoweredCBridgedType tc V (patternClangTy pattern) False = Inr bridged"
        "getLoweredBridgedType tc pattern (OptionalType_get optKind V) rep purpose
           = Inr (map_option (OptionalType_get optKind) bridged)"
        by blast
      then show ?thesis using arg[OF f v] by (intro that[of bridged]) simp_all
    qed
    show "\<exists>bridged. getLoweredBridgedType tc pattern V rep ForArgument = Inr bridged \<and>
         getLoweredBridgedType tc pattern (OptionalType_get optKind V) rep purpose
           = Inr (map_option (OptionalType_get optKind) bridged) \<and>
         (\<forall>b k1 k2. bridged = Some b \<longrightarrow>
            getLoweredBridgedType tc pattern (OptionalType_get optKind V) rep purpose
              \<noteq> Inr (Some (OptionalType_get k1 (OptionalType_get k2 b))))"
      using b twice[of bridged] by (intro exI[of _ bridged]) simp
  qed
  show ?thesis using c1 c2 c3 by (intro conjI)
qed

theorem optional_transparency_witness:
  "isForeignRepresentation Block \<and>
   getAnyOptionalObjectType (Swift_Array Swift_Int) = None \<and>
   getLoweredBridgedType stdlib (ClangTypePattern (Clang_Other ''NSArray *'') noElements)
     (Swift_Array Swift_Int) Block ForArgument = Inr (Some NSArray) \<and>
   getLoweredBridgedType stdlib (ClangTypePattern (Clang_Other ''NSArray *'') noElements)
     (OptionalType_get OTK_ImplicitlyUnwrappedOptional (Swift_Array Swift_Int)) Block ForResult
     = Inr (Some (OptionalType_get OTK_ImplicitlyUnwrappedOptional NSArray))"
proof -
  let ?p = "ClangTypePattern (Clang_Other ''NSArray *'') noElements"
  have f: "isForeignRepresentation Block" by (simp add: isForeignRepresentation_def)
  have v: "getAnyOptionalObjectType (Swift_Array Swift_Int) = None" by (simp add: example_defs)
  have a: "getLoweredBridgedType stdlib ?p (Swift_Array Swift_Int) Block ForArgument
             = Inr (Some NSArray)"
    by (simp add: example_defs bridge_defs)
  from optional_transparency
         [of Block stdlib ?p OTK_ImplicitlyUnwrappedOptional "Swift_Array Swift_Int" ForResult,
          THEN conjunct2, THEN conjunct2] v
  obtain bridged where
    "getLoweredBridgedType stdlib ?p (Swift_Array Swift_Int) Block ForArgument = Inr bridged"
    "getLoweredBridgedType stdlib ?p
       (OptionalType_get OTK_ImplicitlyUnwrappedOptional (Swift_Array Swift_Int)) Block ForResult
       = Inr (map_option (OptionalType_get OTK_ImplicitlyUnwrappedOptional) bridged)"
    by blast
  with a have "getLoweredBridgedType stdlib ?p
       (OptionalType_get OTK_ImplicitlyUnwrappedOptional (Swift_Array Swift_Int)) Block ForResult
       = Inr (Some (OptionalType_get OTK_ImplicitlyUnwrappedOptional NSArray))"
    by auto
  then show ?thesis using f v a by simp
qed

subsection \<open>The native boolean type\<close>

text \<open>
  C5. Under every foreign representation the native boolean type (which is neither the
  native string type nor an optional) is returned unchanged when the pattern has a
  foreign origin that is a primitive boolean type, and is mapped to what the lookup of
  the foreign object-boolean type gives in every other case (no foreign origin, or one
  that is not a primitive boolean).
\<close>

theorem boolean_special_case:
  assumes "isForeignRepresentation rep"
    and "getBoolType tc = Some nativeBoolTy"
    and "getStringType tc \<noteq> Some nativeBoolTy"
    and "getAnyOptionalObjectType nativeBoolTy = None"
  shows "getLoweredBridgedType tc pattern nativeBoolTy rep purpose =
           (case patternClangTy pattern of
              None \<Rightarrow> Inr (getObjCBoolType tc)
            | Some c \<Rightarrow> if isBooleanType c then Inr (Some nativeBoolTy)
                        else Inr (getObjCBoolType tc))"
  using assms
  by (simp add: getLoweredBridgedType_foreign bridgeForeign_def getLoweredCBridgedType_def
           split: option.splits)

theorem boolean_special_case_witness:
  "isForeignRepresentation CFunctionPointer \<and>
   getLoweredBridgedType stdlib (ClangTypePattern Clang_Bool noElements) Swift_Bool
     CFunctionPointer ForArgument = Inr (Some Swift_Bool) \<and>
   getLoweredBridgedType stdlib (ClangTypePattern (Clang_Other ''BOOL'') noElements) Swift_Bool
     CFunctionPointer ForArgument = Inr (Some ObjCBool) \<and>
   getLoweredBridgedType stdlib Opaque Swift_Bool CFunctionPointer ForArgument = Inr (Some ObjCBool)"
  using boolean_special_case
      [of CFunctionPointer stdlib Swift_Bool "ClangTypePattern Clang_Bool noElements" ForArgument]
    boolean_special_case
      [of CFunctionPointer stdlib Swift_Bool "ClangTypePattern (Clang_Other ''BOOL'') noElements"
          ForArgument]
    boolean_special_case [of CFunctionPointer stdlib Swift_Bool Opaque ForArgument]
  by (simp add: isForeignRepresentation_def example_defs patternClangTy_def)

subsection \<open>Function types\<close>

lemma FunctionTy_not_optional: "getAnyOptionalObjectType (FunctionTy input result info) = None"
  by simp

text \<open>
  C6. Under every foreign representation a function type (which is neither of the two
  native known types) whose own representation is block, C function pointer, thin,
  method, ObjC method or witness method is returned unchanged, and one whose
  representation is thick is returned with the representation block and the same
  input type, result type and other attributes.
\<close>

theorem function_type_rule:
  assumes "isForeignRepresentation rep"
    and "getStringType tc \<noteq> Some (FunctionTy input result info)"
    and "getBoolType tc \<noteq> Some (FunctionTy input result info)"
  shows "(getSILRepresentation info \<in> {Block, CFunctionPointer, Thin, Method, ObjCMethod, WitnessMethod} \<longrightarrow>
            getLoweredBridgedType tc pattern (FunctionTy input result info) rep purpose
              = Inr (Some (FunctionTy input result info))) \<and>
         (getSILRepresentation info = Thick \<longrightarrow>
            getLoweredBridgedType tc pattern (FunctionTy input result info) rep purpose
              = Inr (Some (FunctionTy input result (info\<lparr>getSILRepresentation := Block\<rparr>))))"
proof -
  have leaf: "getLoweredBridgedType tc pattern (FunctionTy input result info) rep purpose =
        (case bridgeFunctionType (FunctionTy input result info) of
           Some ty \<Rightarrow> Inr (Some ty) | None \<Rightarrow> Inr None)"
    using assms
    by (simp add: getLoweredBridgedType_foreign bridgeForeign_def getLoweredCBridgedType_def
          split: SILFunctionTypeRepresentation.splits)
  show ?thesis
    unfolding leaf
    by (auto simp: withSILRepresentation_def split: SILFunctionTypeRepresentation.splits)
qed

theorem function_type_rule_witness:
  "isForeignRepresentation ObjCMethod \<and>
   getLoweredBridgedType stdlib Opaque thickClosure ObjCMethod ForArgument
     = Inr (Some (FunctionTy Swift_Int Swift_String \<lparr>getSILRepresentation = Block, otherBits = 5\<rparr>)) \<and>
   getLoweredBridgedType stdlib Opaque
     (FunctionTy Swift_Int Swift_String \<lparr>getSILRepresentation = Thin, otherBits = 5\<rparr>) ObjCMethod ForArgument
     = Inr (Some (FunctionTy Swift_Int Swift_String \<lparr>getSILRepresentation = Thin, otherBits = 5\<rparr>))"
  using function_type_rule
      [of ObjCMethod stdlib Swift_Int Swift_String "\<lparr>getSILRepresentation = Thick, otherBits = 5\<rparr>"
          Opaque ForArgument]
    function_type_rule
      [of ObjCMethod stdlib Swift_Int Swift_String "\<lparr>getSILRepresentation = Thin, otherBits = 5\<rparr>"
          Opaque ForArgument]
  by (simp add: isForeignRepresentation_def example_defs thickClosure_def)

subsection \<open>Nested optionals\<close>

lemma optional_matches_no_rule:
  assumes "nativeTypesArePlain tc"
  shows "getLoweredCBridgedType tc (OptionalType_get k V) clangTy opt
           = Inr (Some (OptionalType_get k V))"
proof -
  let ?t = "OptionalType_get k V"
  have s: "getStringType tc \<noteq> Some ?t" and b: "getBoolType tc \<noteq> Some ?t"
    using assms by (auto simp: nativeTypesArePlain_def ifFound_def OptionalType_get_def)
  have d: "getArrayDecl tc \<noteq> Some (OptionalDecl k)" "getDictionaryDecl tc \<noteq> Some (OptionalDecl k)"
          "getSetDecl tc \<noteq> Some (OptionalDecl k)"
    using assms by (auto simp: nativeTypesArePlain_def ifFound_def isPlainDecl_def)
  have n: "getAnyNominal ?t = Some (OptionalDecl k)" by (simp add: OptionalType_get_def)
  have m: "bridgeClassMetatype ?t = None" "bridgeExistentialMetatype ?t = None"
          "bridgeFunctionType ?t = None"
    by (simp_all add: OptionalType_get_def)
  show ?thesis
    using s b d by (simp add: getLoweredCBridgedType_def n m)
qed

text \<open>
  C10. Only one optional layer is looked through: the wrapped type goes to the leaf
  mapper, for which an optional type matches no rule. So under a foreign representation
  \<open>Optional<Optional<V>>\<close> is returned unchanged for every \<open>V\<close>, bridgeable or not,
  when the native known types and collection declarations are not the optional enums.
\<close>

theorem nested_optional_unchanged:
  assumes "isForeignRepresentation rep" and "nativeTypesArePlain tc"
  shows "getLoweredCBridgedType tc (OptionalType_get k2 V) (patternClangTy pattern) False
           = Inr (Some (OptionalType_get k2 V)) \<and>
         getLoweredBridgedType tc pattern (OptionalType_get k1 (OptionalType_get k2 V)) rep purpose
           = Inr (Some (OptionalType_get k1 (OptionalType_get k2 V)))"
  using assms
  by (simp add: getLoweredBridgedType_foreign bridgeForeign_def optional_matches_no_rule
        getAnyOptionalObjectType_OptionalType_get)

theorem nested_optional_unchanged_witness:
  "isForeignRepresentation ObjCMethod \<and> nativeTypesArePlain stdlib \<and>
   getLoweredBridgedType stdlib (ClangTypePattern (Clang_Other ''NSString *'') noElements)
     (OptionalType_get OTK_Optional (OptionalType_get OTK_Optional Swift_String)) ObjCMethod ForResult
     = Inr (Some (OptionalType_get OTK_Optional (OptionalType_get OTK_Optional Swift_String)))"
  using nested_optional_unchanged
      [of ObjCMethod stdlib OTK_Optional Swift_String
          "ClangTypePattern (Clang_Other ''NSString *'') noElements" OTK_Optional ForResult]
  by (simp add: isForeignRepresentation_def nativeTypesArePlain_def ifFound_def isPlainDecl_def
        example_defs)

subsection \<open>A foreign counterpart that is not found\<close>

text \<open>
  C8 at the native string type as the result of a foreign method whose pattern has a
  foreign origin, when the foreign string type is not found: with \<open>suppressOptional\<close>
  not set, \<open>getLoweredCBridgedType\<close> wraps the null type in an optional instead of
  returning it, so the call does not return from the leaf mapper and
  \<open>getBridgedResultType\<close> emits no diagnostic; with \<open>suppressOptional\<close> set, the null
  type is returned and reported once.
\<close>

theorem missing_foreign_string_wrapped:
  "getLoweredCBridgedType stdlibWithoutFoundation Swift_String (Some (Clang_Other ''NSString *'')) True
     = Inl NullTypeWrapped \<and>
   getLoweredBridgedType stdlibWithoutFoundation
     (ClangTypePattern (Clang_Other ''NSString *'') noElements) Swift_String ObjCMethod ForResult
     = Inl NullTypeWrapped \<and>
   getBridgedResultType stdlibWithoutFoundation ObjCMethod
     (ClangTypePattern (Clang_Other ''NSString *'') noElements) Swift_String False []
     = (Inl NullTypeWrapped, []) \<and>
   getBridgedResultType stdlibWithoutFoundation ObjCMethod
     (ClangTypePattern (Clang_Other ''NSString *'') noElements) Swift_String True []
     = (Inl (FatalError ''unable to set up the ObjC bridge!''),
        [could_not_find_bridge_type Swift_String])"
  by (simp add: stdlibWithoutFoundation_def example_defs bridge_defs getBridgedResultType_def)

subsection \<open>Idempotence\<close>

lemma isPlainNominal_cases:
  assumes "isPlainNominal ty"
  obtains decl args where "ty = NominalTy decl args" and "isPlainDecl decl"
  using assms by (cases ty rule: isPlainNominal.cases) (simp_all add: isPlainDecl_def)

lemma plain_nominal_shape:
  assumes "isPlainNominal ty"
  shows "getAnyOptionalObjectType ty = None" and "bridgeClassMetatype ty = None"
    and "bridgeExistentialMetatype ty = None" and "bridgeFunctionType ty = None"
  using assms by (cases ty rule: isPlainNominal.cases; simp)+

lemma foreign_object_fixed:
  assumes "isForeignObjectType tc ty"
  shows "getLoweredCBridgedType tc ty clangTy opt = Inr (Some ty)"
  using assms
  by (simp add: isForeignObjectType_def getLoweredCBridgedType_def plain_nominal_shape)

lemma foreign_object_not_optional:
  "isForeignObjectType tc ty \<Longrightarrow> getAnyOptionalObjectType ty = None"
  by (simp add: isForeignObjectType_def plain_nominal_shape)

lemma native_types_plain:
  assumes "nativeTypesArePlain tc"
  shows "getStringType tc = Some ty \<Longrightarrow> isPlainNominal ty"
    and "getBoolType tc = Some ty \<Longrightarrow> isPlainNominal ty"
  using assms by (simp_all add: nativeTypesArePlain_def ifFound_def)

lemma not_plain_not_native:
  assumes "nativeTypesArePlain tc" and "\<not> isPlainNominal ty"
  shows "getStringType tc \<noteq> Some ty" and "getBoolType tc \<noteq> Some ty"
  using assms native_types_plain by blast+

lemma bridged_class_metatype_fixed:
  assumes "nativeTypesArePlain tc" and "bridgeClassMetatype t = Some ty"
  shows "getAnyOptionalObjectType ty = None \<and>
         (\<forall>c h. getLoweredCBridgedType tc ty c h = Inr (Some ty))"
proof -
  from assms(2) obtain inst repr where t: "t = MetatypeTy inst repr"
    and c: "getClassOrBoundGenericClass inst" and ty: "ty = MetatypeTy inst (Some Meta_ObjC)"
    by (cases t rule: bridgeClassMetatype.cases) (auto split: if_splits)
  have "\<not> isPlainNominal ty" by (simp add: ty)
  from not_plain_not_native[OF assms(1) this] show ?thesis
    by (simp add: getLoweredCBridgedType_def ty c)
qed

lemma bridged_existential_metatype_fixed:
  assumes "nativeTypesArePlain tc" and "bridgeExistentialMetatype t = Some ty"
  shows "getAnyOptionalObjectType ty = None \<and>
         (\<forall>c h. getLoweredCBridgedType tc ty c h = Inr (Some ty))"
proof -
  from assms(2) obtain inst repr where t: "t = ExistentialMetatypeTy inst repr"
    and c: "isObjCExistentialType inst" and ty: "ty = ExistentialMetatypeTy inst (Some Meta_ObjC)"
    by (cases t rule: bridgeExistentialMetatype.cases) (auto split: if_splits)
  have "\<not> isPlainNominal ty" by (simp add: ty)
  from not_plain_not_native[OF assms(1) this] show ?thesis
    by (simp add: getLoweredCBridgedType_def ty c)
qed

lemma bridgeFunctionType_twice:
  "bridgeFunctionType t = Some ty \<Longrightarrow> bridgeFunctionType ty = Some ty"
  by (cases t rule: bridgeFunctionType.cases)
     (auto simp: withSILRepresentation_def split: SILFunctionTypeRepresentation.splits)

lemma bridgeFunctionType_shape:
  "bridgeFunctionType t = Some ty \<Longrightarrow> \<exists>input result info. ty = FunctionTy input result info"
  by (cases t rule: bridgeFunctionType.cases)
     (auto split: SILFunctionTypeRepresentation.splits)

lemma bridged_function_fixed:
  assumes "nativeTypesArePlain tc" and "bridgeFunctionType t = Some ty"
  shows "getAnyOptionalObjectType ty = None \<and>
         (\<forall>c h. getLoweredCBridgedType tc ty c h = Inr (Some ty))"
proof -
  from bridgeFunctionType_shape[OF assms(2)] obtain input result info where
    ty: "ty = FunctionTy input result info" by blast
  have "\<not> isPlainNominal ty" by (simp add: ty)
  from not_plain_not_native[OF assms(1) this] have
    n: "getStringType tc \<noteq> Some ty" "getBoolType tc \<noteq> Some ty" .
  have f: "bridgeFunctionType ty = Some ty" using assms(2) by (rule bridgeFunctionType_twice)
  have m: "bridgeClassMetatype ty = None" "bridgeExistentialMetatype ty = None"
          "getAnyOptionalObjectType ty = None"
    by (simp_all add: ty)
  show ?thesis using n by (simp add: getLoweredCBridgedType_def f m)
qed

lemma returnBridgedCollection_cases:
  assumes "returnBridgedCollection bridgedTy opt clangTy = Inr (Some ty)"
  shows "bridgedTy = Some ty \<or> (\<exists>f. bridgedTy = Some f \<and> ty = OptionalType_get OTK_Optional f)"
  using assms by (auto simp: returnBridgedCollection_def split: if_splits option.splits)

text \<open>What a returned leaf type looks like.\<close>

lemma leaf_result_cases:
  assumes n: "nativeTypesArePlain tc" and f: "foreignTypesAreObjects tc"
    and r: "getLoweredCBridgedType tc t clangTy opt = Inr (Some ty)"
  shows "ty = t
       \<or> (getAnyOptionalObjectType ty = None \<and>
            (\<forall>c h. getLoweredCBridgedType tc ty c h = Inr (Some ty)))
       \<or> (\<exists>obj. ty = OptionalType_get OTK_Optional obj \<and>
            (\<forall>c h. getLoweredCBridgedType tc obj c h = Inr (Some obj)))"
proof -
  have obj: "getAnyOptionalObjectType x = None \<and> (\<forall>c h. getLoweredCBridgedType tc x c h = Inr (Some x))"
    if "isForeignObjectType tc x" for x
    using that foreign_object_fixed foreign_object_not_optional by blast
  have coll: ?thesis
    if "returnBridgedCollection bridgedTy opt clangTy = Inr (Some ty)"
      and "ifFound (isForeignObjectType tc) bridgedTy" for bridgedTy
  proof -
    from returnBridgedCollection_cases[OF that(1)] show ?thesis
    proof
      assume "bridgedTy = Some ty"
      with that(2) have "isForeignObjectType tc ty" by (simp add: ifFound_def)
      from obj[OF this] show ?thesis by blast
    next
      assume "\<exists>x. bridgedTy = Some x \<and> ty = OptionalType_get OTK_Optional x"
      then obtain x where x: "bridgedTy = Some x" "ty = OptionalType_get OTK_Optional x" by blast
      with that(2) have "isForeignObjectType tc x" by (simp add: ifFound_def)
      from obj[OF this] x show ?thesis by blast
    qed
  qed
  note fo = f[unfolded foreignTypesAreObjects_def]
  consider
      (str) "getStringType tc = Some t"
    | (bool) "getStringType tc \<noteq> Some t" "getBoolType tc = Some t"
    | (meta) m where "getStringType tc \<noteq> Some t" "getBoolType tc \<noteq> Some t"
        "bridgeClassMetatype t = Some m"
    | (exist) m where "getStringType tc \<noteq> Some t" "getBoolType tc \<noteq> Some t"
        "bridgeClassMetatype t = None" "bridgeExistentialMetatype t = Some m"
    | (func) m where "getStringType tc \<noteq> Some t" "getBoolType tc \<noteq> Some t"
        "bridgeClassMetatype t = None" "bridgeExistentialMetatype t = None"
        "bridgeFunctionType t = Some m"
    | (rest) "getStringType tc \<noteq> Some t" "getBoolType tc \<noteq> Some t"
        "bridgeClassMetatype t = None" "bridgeExistentialMetatype t = None"
        "bridgeFunctionType t = None"
    by (cases "bridgeClassMetatype t"; cases "bridgeExistentialMetatype t";
        cases "bridgeFunctionType t") auto
  then show ?thesis
  proof cases
    case str
    with r have "returnBridgedCollection (getNSStringType tc) opt clangTy = Inr (Some ty)"
      by (simp add: getLoweredCBridgedType_def)
    from coll[OF this] fo show ?thesis by blast
  next
    case bool
    with r have "ty = t \<or> getObjCBoolType tc = Some ty"
      by (auto simp: getLoweredCBridgedType_def split: if_splits)
    then show ?thesis
    proof
      assume "ty = t" then show ?thesis by simp
    next
      assume "getObjCBoolType tc = Some ty"
      with fo have "isForeignObjectType tc ty" by (simp add: ifFound_def)
      from obj[OF this] show ?thesis by blast
    qed
  next
    case meta
    with r have "ty = m" by (simp add: getLoweredCBridgedType_def)
    with bridged_class_metatype_fixed[OF n meta(3)] show ?thesis by blast
  next
    case exist
    with r have "ty = m" by (simp add: getLoweredCBridgedType_def)
    with bridged_existential_metatype_fixed[OF n exist(4)] show ?thesis by blast
  next
    case func
    with r have "ty = m" by (simp add: getLoweredCBridgedType_def)
    with bridged_function_fixed[OF n func(5)] show ?thesis by blast
  next
    case rest
    with r have
      "returnBridgedCollection (getNSArrayType tc) opt clangTy = Inr (Some ty)
       \<or> returnBridgedCollection (getNSDictionaryType tc) opt clangTy = Inr (Some ty)
       \<or> returnBridgedCollection (getNSSetType tc) opt clangTy = Inr (Some ty)
       \<or> ty = t"
      by (auto simp: getLoweredCBridgedType_def split: if_splits)
    then show ?thesis using fo coll by blast
  qed
qed

text \<open>
  C7. Idempotence: for every type, pattern, representation and purpose, when
  \<open>getLoweredBridgedType\<close> returns a type, bridging that type again with the same
  pattern, representation and purpose returns it unchanged. The known types are those
  of a standard library: the native ones are plain nominal types and the foreign
  counterparts are foreign object types.
\<close>

theorem bridging_idempotent:
  assumes n: "nativeTypesArePlain tc" and f: "foreignTypesAreObjects tc"
    and r: "getLoweredBridgedType tc pattern t rep purpose = Inr (Some ty)"
  shows "getLoweredBridgedType tc pattern ty rep purpose = Inr (Some ty)"
proof (cases "isForeignRepresentation rep")
  case False
  then have nat: "isNativeRepresentation rep"
    by (cases rep) (simp_all add: isForeignRepresentation_def isNativeRepresentation_def)
  with r have "ty = t" by (simp add: getLoweredBridgedType_native)
  then show ?thesis using nat by (simp add: getLoweredBridgedType_native)
next
  case True
  let ?c = "patternClangTy pattern"
  have fr: "getLoweredBridgedType tc pattern x rep purpose = bridgeForeign tc pattern x purpose" for x
    using True by (rule getLoweredBridgedType_foreign)
  show ?thesis
  proof (cases "getAnyOptionalObjectType t")
    case None
    with r have leaf: "getLoweredCBridgedType tc t ?c (purpose = ForResult) = Inr (Some ty)"
      by (simp add: fr bridgeForeign_def)
    from leaf_result_cases[OF n f leaf] show ?thesis
    proof (elim disjE conjE exE)
      assume "ty = t"
      then show ?thesis using r by simp
    next
      assume "getAnyOptionalObjectType ty = None"
        "\<forall>c h. getLoweredCBridgedType tc ty c h = Inr (Some ty)"
      then show ?thesis by (simp add: fr bridgeForeign_def)
    next
      fix obj assume "ty = OptionalType_get OTK_Optional obj"
        "\<forall>c h. getLoweredCBridgedType tc obj c h = Inr (Some obj)"
      then show ?thesis
        by (simp add: fr bridgeForeign_def getAnyOptionalObjectType_OptionalType_get)
    qed
  next
    case (Some kv)
    obtain k v where kv: "kv = (k, v)" by (cases kv)
    from r Some kv obtain b where
      leaf: "getLoweredCBridgedType tc v ?c False = Inr (Some b)" and ty: "ty = OptionalType_get k b"
      by (auto simp: fr bridgeForeign_def split: sum.splits option.splits)
    have again: "getLoweredCBridgedType tc b ?c False = Inr (Some b)"
      using leaf_result_cases[OF n f leaf]
    proof (elim disjE conjE exE)
      assume "b = v" then show ?thesis using leaf by simp
    next
      assume "\<forall>c h. getLoweredCBridgedType tc b c h = Inr (Some b)"
      then show ?thesis by blast
    next
      fix obj assume o: "b = OptionalType_get OTK_Optional obj"
      show ?thesis unfolding o by (rule optional_matches_no_rule[OF n])
    qed
    show ?thesis
      by (simp add: ty fr bridgeForeign_def getAnyOptionalObjectType_OptionalType_get again)
  qed
qed

theorem bridging_idempotent_witness:
  "nativeTypesArePlain stdlib \<and> foreignTypesAreObjects stdlib \<and>
   getLoweredBridgedType stdlib (ClangTypePattern (Clang_Other ''NSString *'') noElements)
     Swift_String ObjCMethod ForResult = Inr (Some (OptionalType_get OTK_Optional NSString)) \<and>
   getLoweredBridgedType stdlib (ClangTypePattern (Clang_Other ''NSString *'') noElements)
     (OptionalType_get OTK_Optional NSString) ObjCMethod ForResult
       = Inr (Some (OptionalType_get OTK_Optional NSString))"
proof -
  let ?p = "ClangTypePattern (Clang_Other ''NSString *'') noElements"
  have n: "nativeTypesArePlain stdlib"
    by (simp add: nativeTypesArePlain_def ifFound_def isPlainDecl_def example_defs)
  have f: "foreignTypesAreObjects stdlib"
    by (simp add: foreignTypesAreObjects_def isForeignObjectType_def ifFound_def example_defs)
  have r: "getLoweredBridgedType stdlib ?p Swift_String ObjCMethod ForResult
             = Inr (Some (OptionalType_get OTK_Optional NSString))"
    by (simp add: example_defs bridge_defs)
  from bridging_idempotent [OF n f r] n f r show ?thesis by simp
qed


subsection \<open>Results\<close>

lemma nominal_shape:
  assumes "getAnyNominal t = Some decl"
  shows "bridgeClassMetatype t = None" and "bridgeExistentialMetatype t = None"
    and "bridgeFunctionType t = None"
  using assms by (cases t; simp)+

lemma native_collection_leaf:
  assumes "nativeCollectionCounterpart tc t = Some bridgedTy"
  shows "getLoweredCBridgedType tc t clangTy opt = returnBridgedCollection bridgedTy opt clangTy"
proof (cases "getStringType tc = Some t")
  case True
  with assms show ?thesis
    by (simp add: nativeCollectionCounterpart_def getLoweredCBridgedType_def)
next
  case False
  with assms obtain decl where "getAnyNominal t = Some decl"
    by (cases "getAnyNominal t") (auto simp: nativeCollectionCounterpart_def split: if_splits)
  from nominal_shape[OF this] assms False show ?thesis
    by (auto simp: nativeCollectionCounterpart_def getLoweredCBridgedType_def split: if_splits)
qed

lemma leaf_no_rule:
  assumes "getStringType tc \<noteq> Some t" and "getBoolType tc \<noteq> Some t"
    and "bridgeClassMetatype t = None" and "bridgeExistentialMetatype t = None"
    and "bridgeFunctionType t = None" and "getAnyNominal t = None"
  shows "getLoweredCBridgedType tc t clangTy opt = Inr (Some t)"
  unfolding getLoweredCBridgedType_def using assms by auto

text \<open>
  The claim C9 fails where it makes the purpose the only thing that decides the
  wrapping: with the same purpose (result), the native string type is wrapped in an
  optional when the pattern has a foreign origin and is not wrapped when it has none.
\<close>

theorem result_wrapping_counterexample:
  "getBridgedResultType stdlib ObjCMethod
     (ClangTypePattern (Clang_Other ''NSString *'') noElements) Swift_String False []
     = (Inr (OptionalType_get OTK_Optional NSString), []) \<and>
   getBridgedResultType stdlib ObjCMethod Opaque Swift_String False [] = (Inr NSString, [])"
  by (simp add: example_defs bridge_defs getBridgedResultType_def)

text \<open>
  C9, amended. \<open>getBridgedResultType\<close> hands the whole result type to
  \<open>getLoweredBridgedType\<close>, with the purpose non-optional result when
  \<open>suppressOptional\<close> is set and result otherwise; a tuple (not one of the two native
  known types) comes back as it is, its elements not bridged; and a native string or
  collection type whose counterpart is found is wrapped in an optional exactly when
  \<open>suppressOptional\<close> is not set and the pattern has a foreign origin.
\<close>

theorem result_bridged_as_one_unit:
  "getBridgedResultType tc rep pattern result suppressOptional diags =
     (case getLoweredBridgedType tc pattern result rep
             (if suppressOptional then ForNonOptionalResult else ForResult) of
        Inl f \<Rightarrow> (Inl f, diags)
      | Inr None \<Rightarrow> reportUnbridgeable result diags
      | Inr (Some loweredType) \<Rightarrow> (Inr loweredType, diags)) \<and>
   (getStringType tc \<noteq> Some (TupleTy elements) \<and> getBoolType tc \<noteq> Some (TupleTy elements) \<longrightarrow>
      getBridgedResultType tc rep pattern (TupleTy elements) suppressOptional diags
        = (Inr (TupleTy elements), diags)) \<and>
   (isForeignRepresentation rep \<and> getAnyOptionalObjectType result = None \<and>
    nativeCollectionCounterpart tc result = Some (Some obj) \<longrightarrow>
      getBridgedResultType tc rep pattern result suppressOptional diags
        = (Inr (if \<not> suppressOptional \<and> patternClangTy pattern \<noteq> None
                then OptionalType_get OTK_Optional obj else obj), diags))"
proof (intro conjI impI)
  show "getBridgedResultType tc rep pattern result suppressOptional diags =
     (case getLoweredBridgedType tc pattern result rep
             (if suppressOptional then ForNonOptionalResult else ForResult) of
        Inl f \<Rightarrow> (Inl f, diags)
      | Inr None \<Rightarrow> reportUnbridgeable result diags
      | Inr (Some loweredType) \<Rightarrow> (Inr loweredType, diags))"
    by (simp add: getBridgedResultType_def)
next
  assume a: "getStringType tc \<noteq> Some (TupleTy elements) \<and> getBoolType tc \<noteq> Some (TupleTy elements)"
  have "getLoweredCBridgedType tc (TupleTy elements) c h = Inr (Some (TupleTy elements))" for c h
    using a by (intro leaf_no_rule) simp_all
  then have "getLoweredBridgedType tc pattern (TupleTy elements) rep p = Inr (Some (TupleTy elements))" for p
    by (cases rep) (simp_all add: bridgeForeign_def)
  then show "getBridgedResultType tc rep pattern (TupleTy elements) suppressOptional diags
        = (Inr (TupleTy elements), diags)"
    by (simp add: getBridgedResultType_def)
next
  assume a: "isForeignRepresentation rep \<and> getAnyOptionalObjectType result = None \<and>
    nativeCollectionCounterpart tc result = Some (Some obj)"
  then have "getLoweredBridgedType tc pattern result rep p =
          returnBridgedCollection (Some obj) (p = ForResult) (patternClangTy pattern)" for p
    by (simp add: getLoweredBridgedType_foreign bridgeForeign_def native_collection_leaf)
  then show "getBridgedResultType tc rep pattern result suppressOptional diags
        = (Inr (if \<not> suppressOptional \<and> patternClangTy pattern \<noteq> None
                then OptionalType_get OTK_Optional obj else obj), diags)"
    by (auto simp: getBridgedResultType_def returnBridgedCollection_def)
qed

theorem result_bridged_as_one_unit_witness:
  "getBridgedResultType stdlib ObjCMethod Opaque (TupleTy stringAndBool) False []
     = (Inr (TupleTy stringAndBool), []) \<and>
   getBridgedResultType stdlib Block (ClangTypePattern (Clang_Other ''NSArray *'') noElements)
     (Swift_Array Swift_Int) False [] = (Inr (OptionalType_get OTK_Optional NSArray), []) \<and>
   getBridgedResultType stdlib Block (ClangTypePattern (Clang_Other ''NSArray *'') noElements)
     (Swift_Array Swift_Int) True [] = (Inr NSArray, []) \<and>
   getBridgedResultType stdlib Block Opaque (Swift_Array Swift_Int) False [] = (Inr NSArray, [])"
proof -
  let ?p = "ClangTypePattern (Clang_Other ''NSArray *'') noElements"
  have t: "getStringType stdlib \<noteq> Some (TupleTy stringAndBool) \<and>
           getBoolType stdlib \<noteq> Some (TupleTy stringAndBool)"
    by (simp add: example_defs)
  have c: "isForeignRepresentation Block \<and> getAnyOptionalObjectType (Swift_Array Swift_Int) = None \<and>
           nativeCollectionCounterpart stdlib (Swift_Array Swift_Int) = Some (Some NSArray)"
    by (simp add: isForeignRepresentation_def nativeCollectionCounterpart_def example_defs)
  have p: "patternClangTy ?p \<noteq> None" "patternClangTy Opaque = None"
    by (simp_all add: patternClangTy_def)
  have tuple: "getBridgedResultType stdlib ObjCMethod Opaque (TupleTy stringAndBool) False []
     = (Inr (TupleTy stringAndBool), [])"
    using result_bridged_as_one_unit
            [of stdlib ObjCMethod Opaque "TupleTy stringAndBool" False "[]" stringAndBool NSArray,
             THEN conjunct2, THEN conjunct1] t
    by blast
  have coll: "getBridgedResultType stdlib Block pat (Swift_Array Swift_Int) sup []
        = (Inr (if \<not> sup \<and> patternClangTy pat \<noteq> None
                then OptionalType_get OTK_Optional NSArray else NSArray), [])" for pat sup
    using result_bridged_as_one_unit
            [of stdlib Block pat "Swift_Array Swift_Int" sup "[]" stringAndBool NSArray,
             THEN conjunct2, THEN conjunct2] c
    by blast
  show ?thesis
    using tuple coll[of ?p False] coll[of ?p True] coll[of Opaque False] p by simp
qed


subsection \<open>Reporting an absent mapping\<close>

text \<open>
  Where the mappers return an absent mapping, the entry points emit one diagnostic,
  naming the type that has no bridged type, and end with a fatal error.
\<close>

lemma absent_result_reported_once:
  assumes "getLoweredBridgedType tc pattern result rep
             (if suppressOptional then ForNonOptionalResult else ForResult) = Inr None"
  shows "getBridgedResultType tc rep pattern result suppressOptional diags =
           (Inl (FatalError ''unable to set up the ObjC bridge!''),
            diags @ [could_not_find_bridge_type result])"
  using assms by (simp add: getBridgedResultType_def reportUnbridgeable_def)

lemma absent_element_reported_once:
  assumes "j < length elts"
    and "getLoweredBridgedType tc (getTupleElementType pattern (i + j)) (getType (elts ! j)) rep ForArgument
           = Inr None"
    and "\<forall>k < j. \<exists>b.
           getLoweredBridgedType tc (getTupleElementType pattern (i + k)) (getType (elts ! k)) rep ForArgument
             = Inr (Some b)"
  shows "bridgeTupleElements tc rep pattern i elts bridgedFields changed diags =
           (Inl (FatalError ''unable to set up the ObjC bridge!''),
            diags @ [could_not_find_bridge_type (getType (elts ! j))])"
  using assms
proof (induction elts arbitrary: i j bridgedFields changed)
  case Nil
  then show ?case by simp
next
  case (Cons elt elts)
  show ?case
  proof (cases j)
    case 0
    with Cons.prems(2) show ?thesis by (simp add: reportUnbridgeable_def)
  next
    case (Suc m)
    from Cons.prems(3) Suc have "\<exists>b. getLoweredBridgedType tc (getTupleElementType pattern (i + 0))
        (getType ((elt # elts) ! 0)) rep ForArgument = Inr (Some b)"
      by blast
    then obtain b where
      b: "getLoweredBridgedType tc (getTupleElementType pattern i) (getType elt) rep ForArgument = Inr (Some b)"
      by auto
    have m: "m < length elts" using Cons.prems(1) Suc by simp
    have a: "getLoweredBridgedType tc (getTupleElementType pattern (Suc i + m)) (getType (elts ! m)) rep ForArgument
           = Inr None"
      using Cons.prems(2) Suc by simp
    have p: "\<forall>k < m. \<exists>b.
           getLoweredBridgedType tc (getTupleElementType pattern (Suc i + k)) (getType (elts ! k)) rep ForArgument
             = Inr (Some b)"
    proof (intro allI impI)
      fix k assume "k < m"
      then have "Suc k < j" using Suc by simp
      with Cons.prems(3) have "\<exists>b. getLoweredBridgedType tc (getTupleElementType pattern (i + Suc k))
          (getType ((elt # elts) ! Suc k)) rep ForArgument = Inr (Some b)"
        by blast
      then show "\<exists>b. getLoweredBridgedType tc (getTupleElementType pattern (Suc i + k))
          (getType (elts ! k)) rep ForArgument = Inr (Some b)"
        by simp
    qed
    show ?thesis
      using b Cons.IH[OF m a p] Suc by simp
  qed
qed

end
